theory Spec2Isabelle
  imports Main "HOL-Library.Sublist"
begin

section \<open>Python strings and the process environment\<close>

text \<open>
  The script \<^verbatim>\<open>agent_runner.py\<close> is glue code: it reads environment variables, parses two
  small configuration languages and decides how the process ends. A Python \<^verbatim>\<open>str\<close> is
  modelled as a \<^typ>\<open>string\<close> whose characters are code points below 256; on that range
  the string methods below agree with CPython. \<^verbatim>\<open>os.environ\<close> is a partial map.
\<close>

type_synonym environ = "string \<rightharpoonup> string"

text \<open>\<^verbatim>\<open>os.getenv(key)\<close> and \<^verbatim>\<open>os.getenv(key, default)\<close>.\<close>

definition getenv :: "environ \<Rightarrow> string \<Rightarrow> string option" where
  "getenv env key = env key"

definition getenv_default :: "environ \<Rightarrow> string \<Rightarrow> string \<Rightarrow> string" where
  "getenv_default env key dflt = (case env key of None \<Rightarrow> dflt | Some v \<Rightarrow> v)"

text \<open>Truth value of an \<^verbatim>\<open>Optional[str]\<close>: \<^verbatim>\<open>None\<close> and the empty string are false.\<close>

definition truthy :: "string option \<Rightarrow> bool" where
  "truthy v = (case v of None \<Rightarrow> False | Some s \<Rightarrow> s \<noteq> [])"

text \<open>
  \<^verbatim>\<open>str.isspace\<close> on one character: below 256 the white-space code points are
  9 to 13, 28 to 31, 32, 133 and 160.
\<close>

definition isspace :: "char \<Rightarrow> bool" where
  "isspace c = (let n = (of_char c :: nat) in
     (9 \<le> n \<and> n \<le> 13) \<or> (28 \<le> n \<and> n \<le> 32) \<or> n = 133 \<or> n = 160)"

definition lstrip :: "string \<Rightarrow> string" where
  "lstrip s = dropWhile isspace s"

definition rstrip :: "string \<Rightarrow> string" where
  "rstrip s = rev (dropWhile isspace (rev s))"

text \<open>\<^verbatim>\<open>s.strip()\<close>.\<close>

definition strip :: "string \<Rightarrow> string" where
  "strip s = rstrip (lstrip s)"

text \<open>\<^verbatim>\<open>s.lower()\<close>: A to Z and the Latin-1 capitals 192 to 222 (without 215) move up by 32.\<close>

definition lower_char :: "char \<Rightarrow> char" where
  "lower_char c = (let n = (of_char c :: nat) in
     if (65 \<le> n \<and> n \<le> 90) \<or> (192 \<le> n \<and> n \<le> 222 \<and> n \<noteq> 215)
     then char_of (n + 32) else c)"

definition str_lower :: "string \<Rightarrow> string" where
  "str_lower s = map lower_char s"

text \<open>\<^verbatim>\<open>s.split(sep)\<close> for a one-character separator: never the empty list.\<close>

fun str_split :: "char \<Rightarrow> string \<Rightarrow> string list" where
  "str_split sep [] = [[]]"
| "str_split sep (c # cs) =
     (if c = sep then [] # str_split sep cs
      else (case str_split sep cs of
              [] \<Rightarrow> [[c]]
            | w # ws \<Rightarrow> (c # w) # ws))"

text \<open>\<^verbatim>\<open>s.split(sep, 1)\<close>: two parts around the first separator, or the string alone.\<close>

definition split_once :: "char \<Rightarrow> string \<Rightarrow> string list" where
  "split_once sep s =
     (if sep \<in> set s
      then [takeWhile (\<lambda>c. c \<noteq> sep) s, tl (dropWhile (\<lambda>c. c \<noteq> sep) s)]
      else [s])"

text \<open>\<^verbatim>\<open>sep.join(parts)\<close>.\<close>

fun str_join :: "string \<Rightarrow> string list \<Rightarrow> string" where
  "str_join sep [] = []"
| "str_join sep [p] = p"
| "str_join sep (p # q # ps) = p @ sep @ str_join sep (q # ps)"

text \<open>\<^verbatim>\<open>sub in s\<close> on strings.\<close>

fun str_contains :: "string \<Rightarrow> string \<Rightarrow> bool" where
  "str_contains sub [] = (sub = [])"
| "str_contains sub (c # cs) = (prefix sub (c # cs) \<or> str_contains sub cs)"

text \<open>
  \<^verbatim>\<open>s.replace(old, new)\<close>: occurrences of \<open>old\<close> are replaced from the left, without
  overlap; an empty \<open>old\<close> matches before every character and at the end.
\<close>

fun replace_from :: "string \<Rightarrow> string \<Rightarrow> string \<Rightarrow> string" where
  "replace_from old new [] = []"
| "replace_from old new (c # cs) =
     (if prefix old (c # cs)
      then new @ replace_from old new (drop (length old - 1) cs)
      else c # replace_from old new cs)"

definition str_replace :: "string \<Rightarrow> string \<Rightarrow> string \<Rightarrow> string" where
  "str_replace s old new =
     (if old = [] then new @ concat (map (\<lambda>c. c # new) s)
      else replace_from old new s)"

text \<open>\<^verbatim>\<open>s.encode()\<close>: UTF-8, one byte below 128 and two bytes from 128 to 255.\<close>

definition utf8_char :: "char \<Rightarrow> nat list" where
  "utf8_char c = (let n = (of_char c :: nat) in
     if n < 128 then [n] else [192 + n div 64, 128 + n mod 64])"

definition utf8_encode :: "string \<Rightarrow> nat list" where
  "utf8_encode s = concat (map utf8_char s)"

text \<open>\<^verbatim>\<open>base64.b64encode(bs).decode()\<close>: the standard alphabet with \<open>=\<close> padding.\<close>

definition b64_alphabet :: string where
  "b64_alphabet = ''ABCDEFGHIJKLMNOPQRSTUVWXYZabcdefghijklmnopqrstuvwxyz0123456789+/''"

definition b64_char :: "nat \<Rightarrow> char" where
  "b64_char n = b64_alphabet ! (n mod 64)"

fun b64encode :: "nat list \<Rightarrow> string" where
  "b64encode [] = []"
| "b64encode [a] =
     [b64_char (a div 4), b64_char ((a mod 4) * 16), CHR ''='', CHR ''='']"
| "b64encode [a, b] =
     [b64_char (a div 4), b64_char ((a mod 4) * 16 + b div 16),
      b64_char ((b mod 16) * 4), CHR ''='']"
| "b64encode (a # b # c # bs) =
     [b64_char (a div 4), b64_char ((a mod 4) * 16 + b div 16),
      b64_char ((b mod 16) * 4 + c div 64), b64_char (c mod 64)] @ b64encode bs"

text \<open>
  The three \<^verbatim>\<open>os.environ.setdefault\<close> calls at the top of the module: a variable that
  is already set keeps its value.
\<close>

definition setdefault :: "environ \<Rightarrow> string \<Rightarrow> string \<Rightarrow> environ" where
  "setdefault env key dflt = (case env key of None \<Rightarrow> env(key \<mapsto> dflt) | Some v \<Rightarrow> env)"

definition environment_defaults :: "environ \<Rightarrow> environ" where
  "environment_defaults env =
     setdefault
       (setdefault (setdefault env ''BYPASS_TOOL_CONSENT'' ''true'')
          ''STRANDS_TOOL_CONSOLE_MODE'' ''enabled'')
       ''EDITOR_DISABLE_BACKUP'' ''true''"

section \<open>Exceptions and the collaborators outside the script\<close>

text \<open>
  Every exception the model raises is a subclass of \<^verbatim>\<open>Exception\<close>;
  \<^verbatim>\<open>ModuleNotFoundError\<close> counts as \<open>ImportError\<close>, and \<open>ValidationError\<close> is the
  one the typed models of the MCP library raise. Signals and other
  \<^verbatim>\<open>BaseException\<close>s are outside the model.
\<close>

datatype exc =
    ImportError | AttributeError | ValueError | TypeError | ValidationError | OtherException

text \<open>
  The SDK, the tool packages and the JSON parser are not part of the script. Each call
  into them is a field of the world the run happens in: \<open>None\<close> or \<open>Inr\<close> when the call
  returns, \<open>Some\<close> or \<open>Inl\<close> with the exception it raises. \<open>'m\<close> is the type of imported
  modules, \<open>'t\<close> the type of tool callables.
\<close>

datatype json =
    JNull
  | JBool bool
  | JNum int
  | JStr string
  | JList "json list"
  | JDict "(string \<times> json) list"

record ('m, 't) world =
  telemetry_setup :: "exc option"
  import_module :: "string \<Rightarrow> string \<Rightarrow> exc + 'm"
  module_attr :: "'m \<Rightarrow> string \<Rightarrow> exc + 't"
  import_github_tools :: "exc + 't list"
  import_handoff_to_user :: "exc + 't"
  import_notebook :: "exc + 't"
  import_str_replace_based_edit_tool :: "exc + 't"
  mcp_imports :: "exc option"
  json_loads :: "string \<Rightarrow> exc + json"
  create_model :: "exc option"
  s3_session_manager :: "exc option"
  agent_init :: "exc option"
  agent_call :: "string \<Rightarrow> exc option"

section \<open>Telemetry: \<^verbatim>\<open>setup_otel\<close>\<close>

datatype exporter = NotConfigured | ExporterSet | ExporterFailed exc

record otel_result =
  otel_env :: environ
  otel_exporter :: exporter

text \<open>
  The Langfuse block writes the two OTLP variables when the host and both keys are
  non-empty; the generic block then starts the exporter when an endpoint is set, and
  catches what the exporter raises.
\<close>

definition langfuse_env :: "environ \<Rightarrow> environ" where
  "langfuse_env env =
     (case getenv env ''LANGFUSE_BASE_URL'' of
        None \<Rightarrow> env
      | Some langfuse_host \<Rightarrow>
          if langfuse_host = [] then env
          else
            (let public_key = getenv_default env ''LANGFUSE_PUBLIC_KEY'' [];
                 secret_key = getenv_default env ''LANGFUSE_SECRET_KEY'' []
             in if public_key \<noteq> [] \<and> secret_key \<noteq> [] then
                  (let auth_token = b64encode (utf8_encode (public_key @ '':'' @ secret_key));
                       otel_endpoint = langfuse_host @ ''/api/public/otel''
                   in env(''OTEL_EXPORTER_OTLP_ENDPOINT'' \<mapsto> otel_endpoint,
                          ''OTEL_EXPORTER_OTLP_HEADERS'' \<mapsto>
                            ''Authorization=Basic '' @ auth_token))
                else env))"

definition setup_otel :: "('m, 't) world \<Rightarrow> environ \<Rightarrow> otel_result" where
  "setup_otel w env =
     (let env1 = langfuse_env env in
      if truthy (getenv env1 ''OTEL_EXPORTER_OTLP_ENDPOINT'') then
        \<lparr>otel_env = env1,
         otel_exporter = (case telemetry_setup w of
                            None \<Rightarrow> ExporterSet
                          | Some e \<Rightarrow> ExporterFailed e)\<rparr>
      else \<lparr>otel_env = env1, otel_exporter = NotConfigured\<rparr>)"

section \<open>Tool configuration: \<^verbatim>\<open>load_tools\<close>\<close>

text \<open>
  \<^verbatim>\<open>__import__(package, fromlist=[tool_name])\<close> followed by
  \<^verbatim>\<open>getattr(module, tool_name)\<close>. CPython rejects the empty module name with
  \<^verbatim>\<open>ValueError: Empty module name\<close> before it looks for any module.
\<close>

definition resolve_tool :: "('m, 't) world \<Rightarrow> string \<Rightarrow> string \<Rightarrow> exc + 't" where
  "resolve_tool w package tool_name =
     (if package = [] then Inl ValueError
      else (case import_module w package tool_name of
              Inl e \<Rightarrow> Inl e
            | Inr module \<Rightarrow> module_attr w module tool_name))"

text \<open>The handler \<^verbatim>\<open>except (ImportError, AttributeError)\<close>.\<close>

definition caught :: "exc \<Rightarrow> bool" where
  "caught e = (e = ImportError \<or> e = AttributeError)"

text \<open>The inner loop over the tool names of one group; \<open>tools\<close> is the list built so far.\<close>

fun load_tool_names ::
  "('m, 't) world \<Rightarrow> string \<Rightarrow> string list \<Rightarrow> 't list \<Rightarrow> exc + 't list" where
  "load_tool_names w package [] tools = Inr tools"
| "load_tool_names w package (tool_name # rest) tools =
     (case resolve_tool w package tool_name of
        Inr tool \<Rightarrow> load_tool_names w package rest (tools @ [tool])
      | Inl e \<Rightarrow>
          if caught e then load_tool_names w package rest tools else Inl e)"

text \<open>\<^verbatim>\<open>[t.strip() for t in tools_str.split(",") if t.strip()]\<close>.\<close>

definition tool_names_of :: "string \<Rightarrow> string list" where
  "tool_names_of tools_str =
     map strip (filter (\<lambda>t. strip t \<noteq> []) (str_split CHR '','' tools_str))"

text \<open>The outer loop over the groups between semicolons.\<close>

fun load_groups ::
  "('m, 't) world \<Rightarrow> string list \<Rightarrow> 't list \<Rightarrow> exc + 't list" where
  "load_groups w [] tools = Inr tools"
| "load_groups w (g # groups) tools =
     (let group = strip g in
      if group = [] then load_groups w groups tools
      else (case split_once CHR '':'' group of
              [p0, p1] \<Rightarrow>
                (case load_tool_names w (strip p0) (tool_names_of (strip p1)) tools of
                   Inl e \<Rightarrow> Inl e
                 | Inr tools' \<Rightarrow> load_groups w groups tools')
            | _ \<Rightarrow> load_groups w groups tools))"

definition load_tools :: "('m, 't) world \<Rightarrow> string \<Rightarrow> exc + 't list" where
  "load_tools w config = load_groups w (str_split CHR '';'' config) []"

text \<open>
  What the loader asks for, apart from what the world answers: the pairs of package and
  tool name in the order the two loops reach them.
\<close>

definition group_requests :: "string \<Rightarrow> (string \<times> string) list" where
  "group_requests g =
     (let group = strip g in
      if group = [] then []
      else (case split_once CHR '':'' group of
              [p0, p1] \<Rightarrow> map (Pair (strip p0)) (tool_names_of (strip p1))
            | _ \<Rightarrow> []))"

definition tool_requests :: "string \<Rightarrow> (string \<times> string) list" where
  "tool_requests config = concat (map group_requests (str_split CHR '';'' config))"

fun load_requests ::
  "('m, 't) world \<Rightarrow> (string \<times> string) list \<Rightarrow> 't list \<Rightarrow> exc + 't list" where
  "load_requests w [] tools = Inr tools"
| "load_requests w ((package, tool_name) # rest) tools =
     (case resolve_tool w package tool_name of
        Inr tool \<Rightarrow> load_requests w rest (tools @ [tool])
      | Inl e \<Rightarrow> if caught e then load_requests w rest tools else Inl e)"

text \<open>The tools among a list of requests that resolve, in order.\<close>

fun resolved :: "('m, 't) world \<Rightarrow> (string \<times> string) list \<Rightarrow> 't list" where
  "resolved w [] = []"
| "resolved w ((package, tool_name) # rest) =
     (case resolve_tool w package tool_name of
        Inr tool \<Rightarrow> tool # resolved w rest
      | Inl e \<Rightarrow> resolved w rest)"

text \<open>A request is harmless when it resolves or fails with an exception the loop catches.\<close>

definition skippable :: "('m, 't) world \<Rightarrow> string \<times> string \<Rightarrow> bool" where
  "skippable w r =
     (case resolve_tool w (fst r) (snd r) of Inr tool \<Rightarrow> True | Inl e \<Rightarrow> caught e)"

section \<open>The fixed tool bundles\<close>

text \<open>
  \<^verbatim>\<open>load_github_tools\<close> returns the empty list on \<^verbatim>\<open>ImportError\<close>; any other
  exception leaves the function. \<^verbatim>\<open>load_additional_tools\<close> does the same for each of
  its three imports.
\<close>

definition load_github_tools :: "('m, 't) world \<Rightarrow> exc + 't list" where
  "load_github_tools w =
     (case import_github_tools w of
        Inr github_tool_functions \<Rightarrow> Inr github_tool_functions
      | Inl e \<Rightarrow> if e = ImportError then Inr [] else Inl e)"

definition load_one :: "exc + 't \<Rightarrow> 't list \<Rightarrow> exc + 't list" where
  "load_one imported tools =
     (case imported of
        Inr tool \<Rightarrow> Inr (tools @ [tool])
      | Inl e \<Rightarrow> if e = ImportError then Inr tools else Inl e)"

definition load_additional_tools :: "('m, 't) world \<Rightarrow> exc + 't list" where
  "load_additional_tools w =
     (case load_one (import_handoff_to_user w) [] of
        Inl e \<Rightarrow> Inl e
      | Inr tools1 \<Rightarrow>
          (case load_one (import_notebook w) tools1 of
             Inl e \<Rightarrow> Inl e
           | Inr tools2 \<Rightarrow> load_one (import_str_replace_based_edit_tool w) tools2))"

section \<open>MCP servers: \<^verbatim>\<open>load_mcp_servers\<close>\<close>

text \<open>
  A parsed JSON object is a Python \<^verbatim>\<open>dict\<close>: an association list with distinct keys,
  read with \<^const>\<open>map_of\<close>. Numbers that are not integers do not occur in the fields the
  loader reads and are left out of \<^typ>\<open>json\<close>.
\<close>

text \<open>\<^verbatim>\<open>d.get(key, default)\<close>; \<^verbatim>\<open>d.get(key)\<close> is \<open>dict_get d key JNull\<close>.\<close>

definition dict_get :: "(string \<times> json) list \<Rightarrow> string \<Rightarrow> json \<Rightarrow> json" where
  "dict_get d key dflt = (case map_of d key of None \<Rightarrow> dflt | Some v \<Rightarrow> v)"

text \<open>Truth value of a parsed JSON value.\<close>

fun json_truthy :: "json \<Rightarrow> bool" where
  "json_truthy JNull = False"
| "json_truthy (JBool b) = b"
| "json_truthy (JNum n) = (n \<noteq> 0)"
| "json_truthy (JStr s) = (s \<noteq> [])"
| "json_truthy (JList xs) = (xs \<noteq> [])"
| "json_truthy (JDict d) = (d \<noteq> [])"

text \<open>
  The two transport callables of the source are closures over the descriptor's fields;
  nothing is connected until the client calls them.
\<close>

datatype transport_callable =
    Transport json json json
  | TransportHttp json json

datatype transport =
    StdioClient json json json
  | SseClient json
  | StreamableHttpClient json json

record mcp_client =
  transport_callable :: transport_callable
  tool_prefix :: json

text \<open>\<^verbatim>\<open>"/sse" in _url\<close>: substring, membership or key test by the type of the value.\<close>

fun sse_in :: "json \<Rightarrow> exc + bool" where
  "sse_in (JStr url) = Inr (str_contains ''/sse'' url)"
| "sse_in (JList xs) = Inr (JStr ''/sse'' \<in> set xs)"
| "sse_in (JDict d) = Inr (''/sse'' \<in> fst ` set d)"
| "sse_in v = Inl TypeError"

text \<open>
  \<^verbatim>\<open>StdioServerParameters(command=_cmd, args=_args, env=_env)\<close> is a typed model of
  the MCP library: \<^verbatim>\<open>command\<close> is a string, \<^verbatim>\<open>args\<close> a list of strings, \<^verbatim>\<open>env\<close>
  either \<^verbatim>\<open>None\<close> or an object whose values are strings. Any other value makes the
  constructor raise \<^verbatim>\<open>ValidationError\<close>.
\<close>

fun is_str :: "json \<Rightarrow> bool" where
  "is_str (JStr s) = True"
| "is_str v = False"

fun is_str_list :: "json \<Rightarrow> bool" where
  "is_str_list (JList xs) = list_all is_str xs"
| "is_str_list v = False"

fun is_str_dict_or_none :: "json \<Rightarrow> bool" where
  "is_str_dict_or_none JNull = True"
| "is_str_dict_or_none (JDict d) = list_all is_str (map snd d)"
| "is_str_dict_or_none v = False"

definition stdio_parameters_ok :: "json \<Rightarrow> json \<Rightarrow> json \<Rightarrow> bool" where
  "stdio_parameters_ok cmd args env =
     (is_str cmd \<and> is_str_list args \<and> is_str_dict_or_none env)"

text \<open>
  Calling the transport callable of a client. The stdio closure builds the parameters
  first; the remote closure tests the URL and hands it to one of the two clients.
\<close>

fun call_transport :: "transport_callable \<Rightarrow> exc + transport" where
  "call_transport (Transport cmd args env) =
     (if stdio_parameters_ok cmd args env then Inr (StdioClient cmd args env)
      else Inl ValidationError)"
| "call_transport (TransportHttp url headers) =
     (case sse_in url of
        Inl e \<Rightarrow> Inl e
      | Inr sse \<Rightarrow>
          Inr (if sse then SseClient url else StreamableHttpClient url headers))"

text \<open>
  The body of the loop for one server: \<open>Inr None\<close> is \<^verbatim>\<open>continue\<close>, \<open>Inl\<close> the exception
  the inner handler catches (a descriptor that is no object has no \<^verbatim>\<open>get\<close>).
\<close>

definition mcp_server :: "string \<Rightarrow> json \<Rightarrow> exc + mcp_client option" where
  "mcp_server name cfg =
     (case cfg of
        JDict d \<Rightarrow>
          if json_truthy (dict_get d ''disabled'' (JBool False)) then Inr None
          else
            (case map_of d ''command'' of
               Some command \<Rightarrow>
                 Inr (Some \<lparr>transport_callable =
                              Transport command (dict_get d ''args'' (JList []))
                                (dict_get d ''env'' JNull),
                            tool_prefix = dict_get d ''prefix'' (JStr name)\<rparr>)
             | None \<Rightarrow>
                 (case map_of d ''url'' of
                    Some url \<Rightarrow>
                      Inr (Some \<lparr>transport_callable =
                                   TransportHttp url (dict_get d ''headers'' JNull),
                                 tool_prefix = dict_get d ''prefix'' (JStr name)\<rparr>)
                  | None \<Rightarrow> Inr None))
      | _ \<Rightarrow> Inl AttributeError)"

fun mcp_servers_loop :: "(string \<times> json) list \<Rightarrow> mcp_client list \<Rightarrow> mcp_client list" where
  "mcp_servers_loop [] clients = clients"
| "mcp_servers_loop ((name, cfg) # config) clients =
     (case mcp_server name cfg of
        Inr (Some client) \<Rightarrow> mcp_servers_loop config (clients @ [client])
      | _ \<Rightarrow> mcp_servers_loop config clients)"

text \<open>
  Everything that fails before the loop (the imports, the parser, a document or an
  \<^verbatim>\<open>mcpServers\<close> value that is no object) ends in the outer handler, which returns
  the empty list.
\<close>

definition load_mcp_servers :: "('m, 't) world \<Rightarrow> environ \<Rightarrow> mcp_client list" where
  "load_mcp_servers w env =
     (case getenv env ''MCP_SERVERS'' of
        None \<Rightarrow> []
      | Some mcp_json \<Rightarrow>
          if mcp_json = [] then []
          else
            (case mcp_imports w of
               Some e \<Rightarrow> []
             | None \<Rightarrow>
                 (case json_loads w mcp_json of
                    Inr (JDict doc) \<Rightarrow>
                      (case dict_get doc ''mcpServers'' (JDict []) of
                         JDict config \<Rightarrow> mcp_servers_loop config []
                       | _ \<Rightarrow> [])
                  | _ \<Rightarrow> [])))"

section \<open>The run: \<^verbatim>\<open>run_agent\<close>\<close>

definition default_tools :: string where
  "default_tools =
     ''strands_tools:shell,retrieve,use_agent;strands_action:use_github,system_prompt,store_in_kb,create_subagent''"

text \<open>The session identifier: the override when it is non-empty, else the derived name.\<close>

definition session_id :: "environ \<Rightarrow> string" where
  "session_id env =
     (if truthy (getenv env ''SESSION_ID'') then getenv_default env ''SESSION_ID'' []
      else ''gh-'' @ str_replace (getenv_default env ''GITHUB_REPOSITORY'' ''unknown'') ''/'' ''-''
           @ ''-'' @ getenv_default env ''GITHUB_RUN_ID'' ''local'')"

text \<open>
  How the process ends: \<open>SysExit\<close> is \<^verbatim>\<open>sys.exit\<close> (the graceful path, the interpreter
  cleans up), \<open>OsExit\<close> is \<^verbatim>\<open>os._exit\<close> (the abrupt path).
\<close>

datatype exit_path = SysExit int | OsExit int

fun exit_code :: "exit_path \<Rightarrow> int" where
  "exit_code (SysExit n) = n"
| "exit_code (OsExit n) = n"

fun abrupt :: "exit_path \<Rightarrow> bool" where
  "abrupt (SysExit n) = False"
| "abrupt (OsExit n) = True"

datatype 't tool_item = Callable 't | McpServer mcp_client

text \<open>
  What a run leaves behind: the environment after telemetry setup, the tool configuration
  it loaded, the MCP clients it constructed, the flag \<^verbatim>\<open>has_mcp_servers\<close>, the tools and
  the session identifier once they exist, the exception that ended the \<^verbatim>\<open>try\<close> block,
  and the way the process ended.
\<close>

record 't run_result =
  run_env :: environ
  tools_config :: string
  mcp_clients :: "mcp_client list"
  has_mcp_servers :: bool
  run_tools :: "'t tool_item list"
  run_session_id :: "string option"
  agent_constructed :: bool
  failure :: "exc option"
  exit_by :: exit_path

text \<open>The three loaders in a row; the first exception that leaves one of them ends the block.\<close>

definition load_all_tools :: "('m, 't) world \<Rightarrow> string \<Rightarrow> exc + 't list" where
  "load_all_tools w config =
     (case load_tools w config of
        Inl e \<Rightarrow> Inl e
      | Inr tools \<Rightarrow>
          (case load_github_tools w of
             Inl e \<Rightarrow> Inl e
           | Inr github_tools \<Rightarrow>
               (case load_additional_tools w of
                  Inl e \<Rightarrow> Inl e
                | Inr additional_tools \<Rightarrow> Inr (tools @ github_tools @ additional_tools))))"

text \<open>
  From \<^verbatim>\<open>create_model\<close> to the call of the agent: the pair says whether the agent object
  was constructed and which exception, if any, ended the block. The knowledge-base calls
  and the summary are wrapped in handlers of their own and change nothing that is
  modelled. In the handler of the block the test \<^verbatim>\<open>"has_mcp_servers" in locals()\<close> is
  always true, since the flag is assigned before the block.
\<close>

definition agent_phase :: "('m, 't) world \<Rightarrow> environ \<Rightarrow> string \<Rightarrow> bool \<times> exc option" where
  "agent_phase w env prompt =
     (case create_model w of
        Some e \<Rightarrow> (False, Some e)
      | None \<Rightarrow>
          (case (if truthy (getenv env ''S3_SESSION_BUCKET'') then s3_session_manager w
                 else None) of
             Some e \<Rightarrow> (False, Some e)
           | None \<Rightarrow>
               (case agent_init w of
                  Some e \<Rightarrow> (False, Some e)
                | None \<Rightarrow> (True, agent_call w prompt))))"

definition run_agent :: "('m, 't) world \<Rightarrow> environ \<Rightarrow> string \<Rightarrow> 't run_result" where
  "run_agent w env0 prompt =
     (let env = otel_env (setup_otel w env0);
          config = getenv_default env ''STRANDS_TOOLS'' default_tools
      in case load_all_tools w config of
           Inl e \<Rightarrow>
             (let has_mcp = False in
              \<lparr>run_env = env, tools_config = config, mcp_clients = [],
               has_mcp_servers = has_mcp, run_tools = [], run_session_id = None,
               agent_constructed = False, failure = Some e,
               exit_by =
                 (if has_mcp \<and> \<not> truthy (getenv env ''PYTEST_CURRENT_TEST'')
                  then OsExit 1 else SysExit 1)\<rparr>)
         | Inr tools \<Rightarrow>
             (let mcp_servers =
                    (if str_lower (getenv_default env ''STRANDS_LOAD_MCP_SERVERS'' ''true'') = ''true''
                     then load_mcp_servers w env else []);
                  has_mcp = (mcp_servers \<noteq> []);
                  all_tools = map Callable tools @ map McpServer mcp_servers;
                  phase = agent_phase w env prompt
              in case snd phase of
                   None \<Rightarrow>
                     \<lparr>run_env = env, tools_config = config, mcp_clients = mcp_servers,
                      has_mcp_servers = has_mcp, run_tools = all_tools,
                      run_session_id = Some (session_id env),
                      agent_constructed = fst phase, failure = None,
                      exit_by =
                        (if has_mcp \<and> \<not> truthy (getenv env ''PYTEST_CURRENT_TEST'')
                         then OsExit 0 else SysExit 0)\<rparr>
                 | Some e \<Rightarrow>
                     \<lparr>run_env = env, tools_config = config, mcp_clients = mcp_servers,
                      has_mcp_servers = has_mcp, run_tools = all_tools,
                      run_session_id =
                        (if create_model w = None then Some (session_id env) else None),
                      agent_constructed = fst phase, failure = Some e,
                      exit_by =
                        (if has_mcp \<and> \<not> truthy (getenv env ''PYTEST_CURRENT_TEST'')
                         then OsExit 1 else SysExit 1)\<rparr>))"

section \<open>The entry point: \<^verbatim>\<open>main\<close>\<close>

text \<open>
  \<^verbatim>\<open>parse_args\<close> belongs to argparse: it either leaves the process by itself (\<open>Inl\<close> the
  exit status, for \<^verbatim>\<open>-h\<close> or an unknown option) or gives the list of positional
  prompt words. \<^verbatim>\<open>parser.error\<close> prints the usage message and leaves with status 2.
\<close>

datatype 't main_outcome =
    ParserExit int
  | UsageError string
  | RunAgent string "'t run_result"

fun main_exit_code :: "'t main_outcome \<Rightarrow> int" where
  "main_exit_code (ParserExit n) = n"
| "main_exit_code (UsageError msg) = 2"
| "main_exit_code (RunAgent prompt r) = exit_code (exit_by r)"

definition main ::
  "('m, 't) world \<Rightarrow> environ \<Rightarrow> int + string list \<Rightarrow> 't main_outcome" where
  "main w env parsed =
     (case parsed of
        Inl status \<Rightarrow> ParserExit status
      | Inr args_prompt \<Rightarrow>
          (case (case getenv env ''STRANDS_PROMPT'' of
                   None \<Rightarrow>
                     if args_prompt \<noteq> [] then Inr (str_join '' '' args_prompt)
                     else Inl ''Prompt required via STRANDS_PROMPT env var or command-line argument''
                 | Some p \<Rightarrow>
                     if p \<noteq> [] then Inr p
                     else if args_prompt \<noteq> [] then Inr (str_join '' '' args_prompt)
                     else Inl ''Prompt required via STRANDS_PROMPT env var or command-line argument'') of
             Inl msg \<Rightarrow> UsageError msg
           | Inr prompt \<Rightarrow>
               if strip prompt = [] then UsageError ''Prompt cannot be empty''
               else RunAgent prompt (run_agent w env prompt)))"

section \<open>The URL path the specification speaks of\<close>

text \<open>
  The script never takes a URL apart. The path of a URL, as RFC 3986 splits it, is what
  follows the authority (the part after \<^verbatim>\<open>://\<close>) up to the query or the fragment. It is
  defined here only to compare the specification's wording with the substring test of
  \<^const>\<open>sse_in\<close>.
\<close>

fun after_scheme :: "string \<Rightarrow> string option" where
  "after_scheme [] = None"
| "after_scheme (c # cs) =
     (if prefix ''://'' (c # cs) then Some (drop 2 cs) else after_scheme cs)"

definition url_path :: "string \<Rightarrow> string" where
  "url_path url =
     (let rest = (case after_scheme url of
                    Some r \<Rightarrow>
                      dropWhile (\<lambda>c. c \<noteq> CHR ''/'' \<and> c \<noteq> CHR ''?'' \<and> c \<noteq> CHR ''#'') r
                  | None \<Rightarrow> url)
      in takeWhile (\<lambda>c. c \<noteq> CHR ''?'' \<and> c \<noteq> CHR ''#'') rest)"

section \<open>A concrete world for examples\<close>

text \<open>
  One installation: the package \<^verbatim>\<open>strands_tools\<close> exists and has the tool
  \<^verbatim>\<open>shell\<close>, no other package or bundle is installed, the MCP libraries are, the
  parser knows one document, and the SDK calls return.
\<close>

definition example_mcp_json :: string where
  \<open>example_mcp_json = ''{"mcpServers": {"docs": {"url": "https://sse.example.com/mcp"}}}''\<close>

definition example_mcp_doc :: json where
  "example_mcp_doc =
     JDict [(''mcpServers'',
             JDict [(''docs'', JDict [(''url'', JStr ''https://sse.example.com/mcp'')])])]"

definition example_world :: "(string, string) world" where
  "example_world =
     \<lparr>telemetry_setup = None,
      import_module = (\<lambda>package tool_name.
         if package = ''strands_tools'' then Inr package else Inl ImportError),
      module_attr = (\<lambda>module tool_name.
         if tool_name = ''shell'' then Inr (module @ ''.'' @ tool_name)
         else Inl AttributeError),
      import_github_tools = Inl ImportError,
      import_handoff_to_user = Inl ImportError,
      import_notebook = Inl ImportError,
      import_str_replace_based_edit_tool = Inl ImportError,
      mcp_imports = None,
      json_loads = (\<lambda>s. if s = example_mcp_json then Inr example_mcp_doc else Inl ValueError),
      create_model = None,
      s3_session_manager = None,
      agent_init = None,
      agent_call = (\<lambda>prompt. None)\<rparr>"

text \<open>
  A second document with four servers: one disabled, one started as a process, and two
  remote ones; and the world whose parser returns it.
\<close>

definition example_servers :: "(string \<times> json) list" where
  "example_servers =
     [(''off'', JDict [(''command'', JStr ''uvx''), (''disabled'', JBool True)]),
      (''local'', JDict [(''command'', JStr ''uvx''), (''args'', JList [JStr ''server''])]),
      (''events'', JDict [(''url'', JStr ''https://example.com/sse'')]),
      (''http'', JDict [(''url'', JStr ''https://example.com/mcp'')])]"

definition servers_world :: "(string, string) world" where
  "servers_world =
     example_world\<lparr>json_loads := (\<lambda>s. Inr (JDict [(''mcpServers'', JDict example_servers)]))\<rparr>"

text \<open>A world in which importing any tool package raises something the loader does not catch.\<close>

definition broken_world :: "(string, string) world" where
  "broken_world = example_world\<lparr>import_module := (\<lambda>package tool_name. Inl OtherException)\<rparr>"

text \<open>
  An environment that names the document above as \<^verbatim>\<open>MCP_SERVERS\<close> and one tool, with
  the test marker \<^verbatim>\<open>PYTEST_CURRENT_TEST\<close> absent or set to the given value.
\<close>

definition example_env :: "string option \<Rightarrow> environ" where
  "example_env marker =
     [''MCP_SERVERS'' \<mapsto> example_mcp_json, ''STRANDS_TOOLS'' \<mapsto> ''strands_tools:shell'']
       (''PYTEST_CURRENT_TEST'' := marker)"

section \<open>Facts about the string functions and the environment\<close>

lemma strip_Nil: "strip [] = []"
  by (simp add: strip_def lstrip_def rstrip_def)

lemma replace_from_char:
  "replace_from [a] [b] s = map (\<lambda>c. if c = a then b else c) s"
  by (induction s) auto

lemma str_replace_char:
  "str_replace s [a] [b] = map (\<lambda>c. if c = a then b else c) s"
  by (simp add: str_replace_def replace_from_char)

lemma environment_defaults_other:
  "k \<noteq> ''BYPASS_TOOL_CONSENT'' \<Longrightarrow> k \<noteq> ''STRANDS_TOOL_CONSOLE_MODE'' \<Longrightarrow>
   k \<noteq> ''EDITOR_DISABLE_BACKUP'' \<Longrightarrow> environment_defaults env k = env k"
  by (simp add: environment_defaults_def setdefault_def split: option.splits)

lemma langfuse_env_other:
  "k \<noteq> ''OTEL_EXPORTER_OTLP_ENDPOINT'' \<Longrightarrow> k \<noteq> ''OTEL_EXPORTER_OTLP_HEADERS'' \<Longrightarrow>
   langfuse_env env k = env k"
  by (simp add: langfuse_env_def getenv_def Let_def split: option.splits)

lemma otel_env_setup: "otel_env (setup_otel w env) = langfuse_env env"
  by (simp add: setup_otel_def Let_def)

lemma run_env_run_agent: "run_env (run_agent w env p) = langfuse_env env"
  by (simp add: run_agent_def otel_env_setup Let_def split: sum.splits option.splits)

section \<open>The prompt: \<^verbatim>\<open>main\<close>\<close>

text \<open>
  Claim C1, as amended. When \<^verbatim>\<open>STRANDS_PROMPT\<close> is set to a value with at least one
  character that is not white space, \<^verbatim>\<open>main\<close> enters \<^verbatim>\<open>run_agent\<close> with exactly that
  value, whatever positional arguments the command line gave.
\<close>

theorem main_env_prompt_wins:
  assumes "getenv env ''STRANDS_PROMPT'' = Some p" and "strip p \<noteq> []"
  shows "main w env (Inr args) = RunAgent p (run_agent w env p)"
proof -
  from assms(2) have "p \<noteq> []" using strip_Nil by auto
  with assms show ?thesis by (simp add: main_def)
qed

theorem main_env_prompt_wins_witness:
  "main example_world [''STRANDS_PROMPT'' \<mapsto> ''analyze this repository'']
     (Inr [''other'', ''words''])
   = RunAgent ''analyze this repository''
       (run_agent example_world [''STRANDS_PROMPT'' \<mapsto> ''analyze this repository'']
          ''analyze this repository'')"
  using main_env_prompt_wins [of "[''STRANDS_PROMPT'' \<mapsto> ''analyze this repository'']"
      "''analyze this repository''" example_world "[''other'', ''words'']"]
  by (simp add: getenv_def strip_def lstrip_def rstrip_def isspace_def)

text \<open>
  Claim C1 as stated fails: with \<^verbatim>\<open>STRANDS_PROMPT\<close> set to three spaces (a non-empty
  value) and three words on the command line, no prompt reaches \<^verbatim>\<open>run_agent\<close>; the
  process leaves with the usage error.
\<close>

theorem main_blank_env_prompt_counterexample:
  "main example_world [''STRANDS_PROMPT'' \<mapsto> ''   ''] (Inr [''fix'', ''the'', ''bug''])
   = UsageError ''Prompt cannot be empty''"
  by (simp add: main_def getenv_def strip_def lstrip_def rstrip_def isspace_def)

text \<open>
  Claim C2. When \<^verbatim>\<open>STRANDS_PROMPT\<close> is unset or empty and the command line has no
  prompt words, \<^verbatim>\<open>main\<close> ends in \<^verbatim>\<open>parser.error\<close>: exit status 2, and
  \<^verbatim>\<open>run_agent\<close> is not entered, so no agent is constructed.
\<close>

theorem main_no_prompt_usage_error:
  assumes "\<not> truthy (getenv env ''STRANDS_PROMPT'')"
  shows "main w env (Inr []) =
           UsageError ''Prompt required via STRANDS_PROMPT env var or command-line argument''
         \<and> main_exit_code (main w env (Inr []) :: 't main_outcome) = 2
         \<and> (\<forall>p r. main w env (Inr []) \<noteq> RunAgent p r)"
  using assms by (auto simp add: main_def truthy_def split: option.splits)

theorem main_no_prompt_usage_error_witness:
  "\<not> truthy (getenv Map.empty ''STRANDS_PROMPT'')
   \<and> main example_world Map.empty (Inr []) =
       UsageError ''Prompt required via STRANDS_PROMPT env var or command-line argument''
   \<and> main_exit_code (main example_world Map.empty (Inr [])) = 2"
  using main_no_prompt_usage_error [of Map.empty example_world]
  by (simp add: truthy_def getenv_def)

text \<open>
  Claim C10. When \<^verbatim>\<open>STRANDS_PROMPT\<close> is a non-empty string of white space only,
  \<^verbatim>\<open>main\<close> ends in the usage error \<^verbatim>\<open>Prompt cannot be empty\<close> with exit status 2,
  whatever the command line gave: the value shadows the arguments.
\<close>

theorem main_blank_env_prompt_shadows_args:
  assumes "getenv env ''STRANDS_PROMPT'' = Some p" and "p \<noteq> []" and "strip p = []"
  shows "main w env (Inr args) = UsageError ''Prompt cannot be empty''
         \<and> main_exit_code (main w env (Inr args) :: 't main_outcome) = 2"
  using assms by (simp add: main_def)

theorem main_blank_env_prompt_shadows_args_witness:
  "main example_world [''STRANDS_PROMPT'' \<mapsto> [CHR '' '', CHR 0x09, CHR '' '']]
     (Inr [''create'', ''a'', ''PR'']) = UsageError ''Prompt cannot be empty''
   \<and> main_exit_code
       (main example_world [''STRANDS_PROMPT'' \<mapsto> [CHR '' '', CHR 0x09, CHR '' '']]
          (Inr [''create'', ''a'', ''PR''])) = 2"
  using main_blank_env_prompt_shadows_args
    [of "[''STRANDS_PROMPT'' \<mapsto> [CHR '' '', CHR 0x09, CHR '' '']]"
        "[CHR '' '', CHR 0x09, CHR '' '']" example_world "[''create'', ''a'', ''PR'']"]
  by (simp add: getenv_def strip_def lstrip_def rstrip_def isspace_def)

section \<open>The session identifier\<close>

text \<open>
  Claim C3. When \<^verbatim>\<open>SESSION_ID\<close> is unset, the session identifier is \<^verbatim>\<open>gh-\<close>, the
  repository with every slash turned into a dash, a dash, and the run id, where an absent
  repository reads \<^verbatim>\<open>unknown\<close> and an absent run id reads \<^verbatim>\<open>local\<close>; and a run that
  does not fail uses exactly this identifier.
\<close>

theorem session_id_default:
  assumes "getenv env ''SESSION_ID'' = None"
  shows "session_id env =
           ''gh-'' @ map (\<lambda>c. if c = CHR ''/'' then CHR ''-'' else c)
                     (case getenv env ''GITHUB_REPOSITORY'' of None \<Rightarrow> ''unknown'' | Some repo \<Rightarrow> repo)
           @ ''-'' @ (case getenv env ''GITHUB_RUN_ID'' of None \<Rightarrow> ''local'' | Some run \<Rightarrow> run)
         \<and> (failure (run_agent w env prompt) = None \<longrightarrow>
              run_session_id (run_agent w env prompt) = Some (session_id env))"
proof -
  have same: "session_id (langfuse_env env) = session_id env"
    by (simp add: session_id_def getenv_def getenv_default_def langfuse_env_other)
  have "failure (run_agent w env prompt) = None \<longrightarrow>
          run_session_id (run_agent w env prompt) = Some (session_id (langfuse_env env))"
    by (simp add: run_agent_def otel_env_setup Let_def split: sum.splits option.splits)
  with same assms show ?thesis
    by (simp add: session_id_def truthy_def getenv_def getenv_default_def str_replace_char
          split: option.splits)
qed

theorem session_id_default_witness:
  "session_id [''GITHUB_REPOSITORY'' \<mapsto> ''org/repo'', ''GITHUB_RUN_ID'' \<mapsto> ''42'',
               ''STRANDS_TOOLS'' \<mapsto> ''strands_tools:shell''] = ''gh-org-repo-42''
   \<and> run_session_id (run_agent example_world
         [''GITHUB_REPOSITORY'' \<mapsto> ''org/repo'', ''GITHUB_RUN_ID'' \<mapsto> ''42'',
          ''STRANDS_TOOLS'' \<mapsto> ''strands_tools:shell'']
         ''hello'') = Some ''gh-org-repo-42''"
proof -
  let ?env = "[''GITHUB_REPOSITORY'' \<mapsto> ''org/repo'', ''GITHUB_RUN_ID'' \<mapsto> ''42'',
               ''STRANDS_TOOLS'' \<mapsto> ''strands_tools:shell'']"
  have ok: "failure (run_agent example_world ?env ''hello'') = None"
    by (simp add: run_agent_def setup_otel_def langfuse_env_def getenv_def getenv_default_def
          truthy_def Let_def load_all_tools_def load_tools_def split_once_def tool_names_of_def
          strip_def lstrip_def rstrip_def isspace_def resolve_tool_def example_world_def
          load_github_tools_def load_additional_tools_def load_one_def agent_phase_def
          str_lower_def lower_char_def load_mcp_servers_def)
  have unset: "getenv ?env ''SESSION_ID'' = None"
    by (simp add: getenv_def)
  from session_id_default [where env = ?env and w = example_world and prompt = "''hello''",
      OF unset] ok
  show ?thesis by (simp add: getenv_def)
qed

section \<open>Telemetry\<close>

text \<open>
  Claim C7. With \<^verbatim>\<open>LANGFUSE_BASE_URL\<close> and \<^verbatim>\<open>OTEL_EXPORTER_OTLP_ENDPOINT\<close> unset,
  \<^verbatim>\<open>setup_otel\<close> returns the environment as it was and configures no exporter; being
  a value of the model, the call raises nothing.
\<close>

theorem setup_otel_unconfigured:
  assumes "getenv env ''LANGFUSE_BASE_URL'' = None"
      and "getenv env ''OTEL_EXPORTER_OTLP_ENDPOINT'' = None"
  shows "setup_otel w env = \<lparr>otel_env = env, otel_exporter = NotConfigured\<rparr>"
  using assms by (simp add: setup_otel_def langfuse_env_def truthy_def Let_def)

theorem setup_otel_unconfigured_witness:
  "setup_otel example_world Map.empty = \<lparr>otel_env = Map.empty, otel_exporter = NotConfigured\<rparr>"
  using setup_otel_unconfigured [of Map.empty example_world] by (simp add: getenv_def)

text \<open>
  Claim C8, as amended. When \<^verbatim>\<open>LANGFUSE_BASE_URL\<close> and both keys are set to non-empty
  values, \<^verbatim>\<open>setup_otel\<close> writes the endpoint \<^verbatim>\<open><host>/api/public/otel\<close> and the
  header \<^verbatim>\<open>Authorization=Basic\<close> followed by the base64 encoding of the UTF-8 bytes of
  \<^verbatim>\<open>public:secret\<close>, and changes no other variable.
\<close>

theorem setup_otel_langfuse:
  assumes "getenv env ''LANGFUSE_BASE_URL'' = Some host" and "host \<noteq> []"
      and "getenv env ''LANGFUSE_PUBLIC_KEY'' = Some public_key" and "public_key \<noteq> []"
      and "getenv env ''LANGFUSE_SECRET_KEY'' = Some secret_key" and "secret_key \<noteq> []"
  shows "otel_env (setup_otel w env) =
           env(''OTEL_EXPORTER_OTLP_ENDPOINT'' \<mapsto> host @ ''/api/public/otel'',
               ''OTEL_EXPORTER_OTLP_HEADERS'' \<mapsto>
                 ''Authorization=Basic '' @ b64encode (utf8_encode (public_key @ '':'' @ secret_key)))"
  using assms
  by (simp add: otel_env_setup langfuse_env_def getenv_def getenv_default_def Let_def)

theorem setup_otel_langfuse_witness:
  "otel_env (setup_otel example_world
      [''LANGFUSE_BASE_URL'' \<mapsto> ''https://cloud.langfuse.com'',
       ''LANGFUSE_PUBLIC_KEY'' \<mapsto> ''pk'', ''LANGFUSE_SECRET_KEY'' \<mapsto> ''sk''])
     ''OTEL_EXPORTER_OTLP_HEADERS'' = Some ''Authorization=Basic cGs6c2s=''
   \<and> otel_env (setup_otel example_world
      [''LANGFUSE_BASE_URL'' \<mapsto> ''https://cloud.langfuse.com'',
       ''LANGFUSE_PUBLIC_KEY'' \<mapsto> ''pk'', ''LANGFUSE_SECRET_KEY'' \<mapsto> ''sk''])
     ''OTEL_EXPORTER_OTLP_ENDPOINT'' = Some ''https://cloud.langfuse.com/api/public/otel''"
  using setup_otel_langfuse [of "[''LANGFUSE_BASE_URL'' \<mapsto> ''https://cloud.langfuse.com'',
       ''LANGFUSE_PUBLIC_KEY'' \<mapsto> ''pk'', ''LANGFUSE_SECRET_KEY'' \<mapsto> ''sk'']"
       "''https://cloud.langfuse.com''" "''pk''" "''sk''" example_world]
  by (simp add: getenv_def utf8_encode_def utf8_char_def b64_char_def b64_alphabet_def)

text \<open>
  Claim C8 as stated fails: a \<^verbatim>\<open>LANGFUSE_BASE_URL\<close> that is present but empty, together
  with non-empty keys, leaves the environment as it was.
\<close>

theorem setup_otel_empty_host_counterexample:
  "getenv [''LANGFUSE_BASE_URL'' \<mapsto> [], ''LANGFUSE_PUBLIC_KEY'' \<mapsto> ''pk'',
           ''LANGFUSE_SECRET_KEY'' \<mapsto> ''sk''] ''LANGFUSE_BASE_URL'' = Some []
   \<and> setup_otel example_world
       [''LANGFUSE_BASE_URL'' \<mapsto> [], ''LANGFUSE_PUBLIC_KEY'' \<mapsto> ''pk'',
        ''LANGFUSE_SECRET_KEY'' \<mapsto> ''sk'']
     = \<lparr>otel_env = [''LANGFUSE_BASE_URL'' \<mapsto> [], ''LANGFUSE_PUBLIC_KEY'' \<mapsto> ''pk'',
                     ''LANGFUSE_SECRET_KEY'' \<mapsto> ''sk''],
        otel_exporter = NotConfigured\<rparr>"
  by (simp add: setup_otel_def langfuse_env_def getenv_def truthy_def Let_def)

section \<open>The tool loader\<close>

lemma load_tool_names_requests:
  "load_tool_names w package names tools = load_requests w (map (Pair package) names) tools"
  by (induction names arbitrary: tools) (auto split: sum.splits)

lemma load_requests_append:
  "load_requests w (xs @ ys) tools =
     (case load_requests w xs tools of
        Inl e \<Rightarrow> Inl e
      | Inr tools' \<Rightarrow> load_requests w ys tools')"
  by (induction w xs tools rule: load_requests.induct) (auto split: sum.splits)

lemma load_groups_requests:
  "load_groups w groups tools = load_requests w (concat (map group_requests groups)) tools"
proof (induction groups arbitrary: tools)
  case Nil
  show ?case by simp
next
  case (Cons g groups)
  show ?case
    by (simp add: Let_def group_requests_def load_requests_append load_tool_names_requests Cons
             split: list.splits sum.splits)
qed

text \<open>The two loops of \<^verbatim>\<open>load_tools\<close> resolve the requests of the configuration in order.\<close>

lemma load_tools_requests:
  "load_tools w config = load_requests w (tool_requests config) []"
  by (simp add: load_tools_def tool_requests_def load_groups_requests)

lemma load_requests_skippable:
  "list_all (skippable w) reqs \<Longrightarrow> load_requests w reqs tools = Inr (tools @ resolved w reqs)"
  by (induction w reqs tools rule: load_requests.induct)
     (auto simp add: skippable_def split: sum.splits)

text \<open>
  Where every request resolves or fails with \<^verbatim>\<open>ImportError\<close> or
  \<^verbatim>\<open>AttributeError\<close>, the loader returns exactly the tools that resolve, in order.
\<close>

lemma load_tools_skippable:
  "list_all (skippable w) (tool_requests config) \<Longrightarrow>
   load_tools w config = Inr (resolved w (tool_requests config))"
  by (simp add: load_tools_requests load_requests_skippable)

lemma tool_requests_default:
  "tool_requests default_tools =
     [(''strands_tools'', ''shell''), (''strands_tools'', ''retrieve''),
      (''strands_tools'', ''use_agent''), (''strands_action'', ''use_github''),
      (''strands_action'', ''system_prompt''), (''strands_action'', ''store_in_kb''),
      (''strands_action'', ''create_subagent'')]"
  by (simp add: tool_requests_def default_tools_def group_requests_def split_once_def
        tool_names_of_def strip_def lstrip_def rstrip_def isspace_def)

lemma tools_config_run_agent:
  "tools_config (run_agent w env prompt) =
     getenv_default (langfuse_env env) ''STRANDS_TOOLS'' default_tools"
  by (simp add: run_agent_def otel_env_setup Let_def split: sum.splits option.splits)

text \<open>
  Claim C4 at its failing input. A group with a colon and nothing before it asks for the
  package with the empty name; the import raises \<^verbatim>\<open>ValueError\<close>, which the handler of
  \<^verbatim>\<open>load_tools\<close> does not catch. The loader fails, and a well-formed group in the same
  configuration is lost with it, although alone it loads.
\<close>

theorem load_tools_empty_package:
  "load_tools w '':shell'' = Inl ValueError
   \<and> load_tools example_world ''strands_tools:shell'' = Inr [''strands_tools.shell'']
   \<and> load_tools example_world ''strands_tools:shell;:x'' = Inl ValueError"
  by (simp add: load_tools_def split_once_def resolve_tool_def caught_def example_world_def
        tool_names_of_def strip_def lstrip_def rstrip_def isspace_def)

lemma run_agent_load_failure:
  assumes "load_all_tools w (tools_config (run_agent w env prompt)) = Inl e"
  shows "failure (run_agent w env prompt) = Some e \<and> run_tools (run_agent w env prompt) = []
         \<and> \<not> agent_constructed (run_agent w env prompt)"
proof -
  from assms have "load_all_tools w (getenv_default (langfuse_env env) ''STRANDS_TOOLS'' default_tools)
                     = Inl e"
    by (simp add: tools_config_run_agent)
  then show ?thesis
    by (simp add: run_agent_def otel_env_setup Let_def)
qed

lemma run_agent_load_success:
  assumes "load_all_tools w (tools_config (run_agent w env prompt)) = Inr tools"
  shows "run_tools (run_agent w env prompt) =
           map Callable tools @ map McpServer (mcp_clients (run_agent w env prompt))"
proof -
  from assms have "load_all_tools w (getenv_default (langfuse_env env) ''STRANDS_TOOLS'' default_tools)
                     = Inr tools"
    by (simp add: tools_config_run_agent)
  then show ?thesis
    by (simp add: run_agent_def otel_env_setup Let_def split: option.splits)
qed

lemma mcp_clients_without_servers:
  assumes "getenv env ''MCP_SERVERS'' = None"
  shows "mcp_clients (run_agent w env prompt) = []"
proof -
  from assms have "load_mcp_servers w (langfuse_env env) = []"
    by (simp add: load_mcp_servers_def getenv_def langfuse_env_other)
  then show ?thesis
    by (simp add: run_agent_def otel_env_setup Let_def split: sum.splits option.splits)
qed

text \<open>
  Claim C9. When \<^verbatim>\<open>STRANDS_TOOLS\<close> is unset, the run hands the fixed default
  configuration to the tool loader. Its requests are the seven tools of the two packages,
  and the run depends on resolving exactly these: when resolving them raises, the run
  fails with that exception before any tool is kept; when it returns, the tools of the
  run are the resolved ones, followed by the two fixed bundles and the MCP clients.
\<close>

theorem default_tools_config:
  assumes "getenv env ''STRANDS_TOOLS'' = None"
  shows "tools_config (run_agent w env prompt) =
           ''strands_tools:shell,retrieve,use_agent;strands_action:use_github,system_prompt,store_in_kb,create_subagent''
         \<and> tool_requests (tools_config (run_agent w env prompt)) =
             [(''strands_tools'', ''shell''), (''strands_tools'', ''retrieve''),
              (''strands_tools'', ''use_agent''), (''strands_action'', ''use_github''),
              (''strands_action'', ''system_prompt''), (''strands_action'', ''store_in_kb''),
              (''strands_action'', ''create_subagent'')]
         \<and> load_tools w (tools_config (run_agent w env prompt)) =
             load_requests w
               [(''strands_tools'', ''shell''), (''strands_tools'', ''retrieve''),
                (''strands_tools'', ''use_agent''), (''strands_action'', ''use_github''),
                (''strands_action'', ''system_prompt''), (''strands_action'', ''store_in_kb''),
                (''strands_action'', ''create_subagent'')] []
         \<and> (load_requests w
               [(''strands_tools'', ''shell''), (''strands_tools'', ''retrieve''),
                (''strands_tools'', ''use_agent''), (''strands_action'', ''use_github''),
                (''strands_action'', ''system_prompt''), (''strands_action'', ''store_in_kb''),
                (''strands_action'', ''create_subagent'')] [] = Inl e \<longrightarrow>
              failure (run_agent w env prompt) = Some e
              \<and> run_tools (run_agent w env prompt) = []
              \<and> \<not> agent_constructed (run_agent w env prompt))
         \<and> (load_requests w
               [(''strands_tools'', ''shell''), (''strands_tools'', ''retrieve''),
                (''strands_tools'', ''use_agent''), (''strands_action'', ''use_github''),
                (''strands_action'', ''system_prompt''), (''strands_action'', ''store_in_kb''),
                (''strands_action'', ''create_subagent'')] [] = Inr tools
              \<and> load_github_tools w = Inr github_tools
              \<and> load_additional_tools w = Inr additional_tools \<longrightarrow>
              run_tools (run_agent w env prompt) =
                map Callable (tools @ github_tools @ additional_tools)
                @ map McpServer (mcp_clients (run_agent w env prompt)))"
proof -
  let ?seven = "[(''strands_tools'', ''shell''), (''strands_tools'', ''retrieve''),
                 (''strands_tools'', ''use_agent''), (''strands_action'', ''use_github''),
                 (''strands_action'', ''system_prompt''), (''strands_action'', ''store_in_kb''),
                 (''strands_action'', ''create_subagent'')]"
  have config: "tools_config (run_agent w env prompt) = default_tools"
    using assms
    by (simp add: tools_config_run_agent getenv_default_def getenv_def langfuse_env_other)
  have loader: "load_tools w default_tools = load_requests w ?seven []"
    using tool_requests_default by (simp add: load_tools_requests)
  have fails: "failure (run_agent w env prompt) = Some e
               \<and> run_tools (run_agent w env prompt) = []
               \<and> \<not> agent_constructed (run_agent w env prompt)"
    if "load_requests w ?seven [] = Inl e"
  proof (rule run_agent_load_failure)
    from that show "load_all_tools w (tools_config (run_agent w env prompt)) = Inl e"
      by (simp add: config load_all_tools_def loader)
  qed
  have loads: "run_tools (run_agent w env prompt) =
                 map Callable (tools @ github_tools @ additional_tools)
                 @ map McpServer (mcp_clients (run_agent w env prompt))"
    if "load_requests w ?seven [] = Inr tools" and "load_github_tools w = Inr github_tools"
      and "load_additional_tools w = Inr additional_tools"
  proof (rule run_agent_load_success)
    from that
    show "load_all_tools w (tools_config (run_agent w env prompt)) =
            Inr (tools @ github_tools @ additional_tools)"
      by (simp add: config load_all_tools_def loader)
  qed
  from config loader tool_requests_default fails loads show ?thesis
    by (simp add: default_tools_def)
qed

theorem default_tools_config_witness:
  "tools_config (run_agent example_world Map.empty ''hello'') =
     ''strands_tools:shell,retrieve,use_agent;strands_action:use_github,system_prompt,store_in_kb,create_subagent''
   \<and> run_tools (run_agent example_world Map.empty ''hello'') = [Callable ''strands_tools.shell'']
   \<and> failure (run_agent broken_world Map.empty ''hello'') = Some OtherException
   \<and> run_tools (run_agent broken_world Map.empty ''hello'') = []"
proof -
  let ?seven = "[(''strands_tools'', ''shell''), (''strands_tools'', ''retrieve''),
                 (''strands_tools'', ''use_agent''), (''strands_action'', ''use_github''),
                 (''strands_action'', ''system_prompt''), (''strands_action'', ''store_in_kb''),
                 (''strands_action'', ''create_subagent'')]"
  have unset: "getenv Map.empty ''STRANDS_TOOLS'' = None"
    by (simp add: getenv_def)
  have resolved: "load_requests example_world ?seven [] = Inr [''strands_tools.shell'']"
    by (simp add: resolve_tool_def caught_def example_world_def)
  have bundles: "load_github_tools example_world = Inr []"
      "load_additional_tools example_world = Inr []"
    by (simp_all add: load_github_tools_def load_additional_tools_def load_one_def
          example_world_def)
  have raised: "load_requests broken_world ?seven [] = Inl OtherException"
    by (simp add: resolve_tool_def caught_def broken_world_def example_world_def)
  have no_clients: "mcp_clients (run_agent example_world Map.empty ''hello'') = []"
    by (rule mcp_clients_without_servers) (simp add: getenv_def)
  note ok = default_tools_config
      [where env = Map.empty and w = example_world and prompt = "''hello''"
         and e = OtherException and tools = "[''strands_tools.shell'']"
         and github_tools = "[]" and additional_tools = "[]", OF unset]
  note broken = default_tools_config
      [where env = Map.empty and w = broken_world and prompt = "''hello''"
         and e = OtherException and tools = "[]" and github_tools = "[]"
         and additional_tools = "[]", OF unset]
  have config: "tools_config (run_agent example_world Map.empty ''hello'') =
     ''strands_tools:shell,retrieve,use_agent;strands_action:use_github,system_prompt,store_in_kb,create_subagent''"
    by (rule conjunct1 [OF ok])
  have "run_tools (run_agent example_world Map.empty ''hello'') =
          map Callable ([''strands_tools.shell''] @ [] @ [])
          @ map McpServer (mcp_clients (run_agent example_world Map.empty ''hello''))"
    by (rule mp [OF conjunct2 [OF conjunct2 [OF conjunct2 [OF conjunct2 [OF ok]]]]])
       (intro conjI resolved bundles)
  then have tools: "run_tools (run_agent example_world Map.empty ''hello'') =
                      [Callable ''strands_tools.shell'']"
    by (simp add: no_clients)
  have failed: "failure (run_agent broken_world Map.empty ''hello'') = Some OtherException
                \<and> run_tools (run_agent broken_world Map.empty ''hello'') = []
                \<and> \<not> agent_constructed (run_agent broken_world Map.empty ''hello'')"
    by (rule mp [OF conjunct1 [OF conjunct2 [OF conjunct2 [OF conjunct2 [OF broken]]]]])
       (rule raised)
  from config tools failed show ?thesis
    by simp
qed

section \<open>MCP descriptors\<close>

lemma mcp_servers_loop_acc:
  "mcp_servers_loop config clients = clients @ mcp_servers_loop config []"
proof (induction config arbitrary: clients)
  case Nil
  show ?case by simp
next
  case (Cons a config)
  obtain name cfg where a: "a = (name, cfg)" by (cases a)
  show ?case
    using Cons [of "clients @ [c]" for c] Cons [of "[c]" for c] Cons [of clients]
    by (simp add: a split: sum.splits option.splits)
qed

text \<open>The loop keeps, in order, the client of every descriptor that yields one.\<close>

lemma mcp_servers_loop_each:
  "mcp_servers_loop config [] =
     concat (map (\<lambda>(name, cfg). case mcp_server name cfg of
                                   Inr (Some client) \<Rightarrow> [client]
                                 | _ \<Rightarrow> []) config)"
proof (induction config)
  case Nil
  show ?case by simp
next
  case (Cons a config)
  obtain name cfg where a: "a = (name, cfg)" by (cases a)
  show ?case
    using Cons mcp_servers_loop_acc [of config "[c]" for c]
    by (simp add: a split: sum.splits option.splits)
qed

lemma mcp_servers_loop_at:
  "mcp_servers_loop (before @ (name, cfg) # rest) [] =
     mcp_servers_loop before []
     @ (case mcp_server name cfg of Inr (Some client) \<Rightarrow> [client] | _ \<Rightarrow> [])
     @ mcp_servers_loop rest []"
  by (simp add: mcp_servers_loop_each)

text \<open>With the variable set, the libraries importable and the document an object, the
  loader is the loop over the \<^verbatim>\<open>mcpServers\<close> object.\<close>

lemma load_mcp_servers_loop:
  assumes "getenv env ''MCP_SERVERS'' = Some mcp_json" and "mcp_json \<noteq> []"
      and "mcp_imports w = None" and "json_loads w mcp_json = Inr (JDict doc)"
      and "map_of doc ''mcpServers'' = Some (JDict config)"
  shows "load_mcp_servers w env = mcp_servers_loop config []"
  using assms by (simp add: load_mcp_servers_def dict_get_def)

text \<open>
  Claim C5, as amended. For a descriptor anywhere in the \<^verbatim>\<open>mcpServers\<close> object of the
  document that \<^verbatim>\<open>MCP_SERVERS\<close> holds: when its \<^verbatim>\<open>disabled\<close> field is true it adds no
  client to what \<^verbatim>\<open>load_mcp_servers\<close> returns; when it is enabled and has a
  \<^verbatim>\<open>command\<close> it adds, at its place, a client bound to the stdio closure, which gives
  the process transport when command, arguments and environment have the types the
  process parameters ask for and raises otherwise; when it is enabled, has no
  \<^verbatim>\<open>command\<close> and has a \<^verbatim>\<open>url\<close> string, it adds a client whose transport is
  Server-Sent-Events when the URL string contains \<^verbatim>\<open>/sse\<close> anywhere, and streaming
  HTTP otherwise.
\<close>

theorem mcp_server_transport:
  assumes "getenv env ''MCP_SERVERS'' = Some mcp_json" and "mcp_json \<noteq> []"
      and "mcp_imports w = None" and "json_loads w mcp_json = Inr (JDict doc)"
      and "map_of doc ''mcpServers'' = Some (JDict (before @ (name, JDict d) # rest))"
  shows
  "(json_truthy (dict_get d ''disabled'' (JBool False)) \<longrightarrow>
      load_mcp_servers w env = mcp_servers_loop before [] @ mcp_servers_loop rest [])
   \<and> (\<not> json_truthy (dict_get d ''disabled'' (JBool False))
        \<and> map_of d ''command'' = Some command \<longrightarrow>
        (\<exists>client.
           load_mcp_servers w env =
             mcp_servers_loop before [] @ client # mcp_servers_loop rest []
           \<and> transport_callable client =
               Transport command (dict_get d ''args'' (JList [])) (dict_get d ''env'' JNull)
           \<and> call_transport (transport_callable client) =
               (if stdio_parameters_ok command (dict_get d ''args'' (JList []))
                     (dict_get d ''env'' JNull)
                then Inr (StdioClient command (dict_get d ''args'' (JList []))
                            (dict_get d ''env'' JNull))
                else Inl ValidationError)))
   \<and> (\<not> json_truthy (dict_get d ''disabled'' (JBool False))
        \<and> map_of d ''command'' = None \<and> map_of d ''url'' = Some (JStr url) \<longrightarrow>
        (\<exists>client.
           load_mcp_servers w env =
             mcp_servers_loop before [] @ client # mcp_servers_loop rest []
           \<and> call_transport (transport_callable client) =
               Inr (if str_contains ''/sse'' url then SseClient (JStr url)
                    else StreamableHttpClient (JStr url) (dict_get d ''headers'' JNull))))"
proof -
  have loop: "load_mcp_servers w env = mcp_servers_loop (before @ (name, JDict d) # rest) []"
    using assms by (rule load_mcp_servers_loop)
  show ?thesis
  proof (intro conjI impI)
    assume "json_truthy (dict_get d ''disabled'' (JBool False))"
    then have "mcp_server name (JDict d) = Inr None"
      by (simp add: mcp_server_def)
    then show "load_mcp_servers w env = mcp_servers_loop before [] @ mcp_servers_loop rest []"
      by (simp add: loop mcp_servers_loop_at)
  next
    let ?args = "dict_get d ''args'' (JList [])"
    let ?env = "dict_get d ''env'' JNull"
    let ?client = "\<lparr>transport_callable = Transport command ?args ?env,
                    tool_prefix = dict_get d ''prefix'' (JStr name)\<rparr>"
    assume "\<not> json_truthy (dict_get d ''disabled'' (JBool False))
            \<and> map_of d ''command'' = Some command"
    then have "mcp_server name (JDict d) = Inr (Some ?client)"
      by (simp add: mcp_server_def)
    then have "load_mcp_servers w env =
                 mcp_servers_loop before [] @ ?client # mcp_servers_loop rest []"
      by (simp add: loop mcp_servers_loop_at)
    moreover have "transport_callable ?client = Transport command ?args ?env"
      by simp
    moreover have "call_transport (transport_callable ?client) =
                     (if stdio_parameters_ok command ?args ?env
                      then Inr (StdioClient command ?args ?env) else Inl ValidationError)"
      by simp
    ultimately show "\<exists>client.
           load_mcp_servers w env =
             mcp_servers_loop before [] @ client # mcp_servers_loop rest []
           \<and> transport_callable client = Transport command ?args ?env
           \<and> call_transport (transport_callable client) =
               (if stdio_parameters_ok command ?args ?env
                then Inr (StdioClient command ?args ?env) else Inl ValidationError)"
      by blast
  next
    let ?client = "\<lparr>transport_callable = TransportHttp (JStr url) (dict_get d ''headers'' JNull),
                    tool_prefix = dict_get d ''prefix'' (JStr name)\<rparr>"
    assume "\<not> json_truthy (dict_get d ''disabled'' (JBool False))
            \<and> map_of d ''command'' = None \<and> map_of d ''url'' = Some (JStr url)"
    then have "mcp_server name (JDict d) = Inr (Some ?client)"
      by (simp add: mcp_server_def)
    then have "load_mcp_servers w env =
                 mcp_servers_loop before [] @ ?client # mcp_servers_loop rest []"
      by (simp add: loop mcp_servers_loop_at)
    moreover have "call_transport (transport_callable ?client) =
                     Inr (if str_contains ''/sse'' url then SseClient (JStr url)
                          else StreamableHttpClient (JStr url) (dict_get d ''headers'' JNull))"
      by simp
    ultimately show "\<exists>client.
           load_mcp_servers w env =
             mcp_servers_loop before [] @ client # mcp_servers_loop rest []
           \<and> call_transport (transport_callable client) =
               Inr (if str_contains ''/sse'' url then SseClient (JStr url)
                    else StreamableHttpClient (JStr url) (dict_get d ''headers'' JNull))"
      by blast
  qed
qed

theorem mcp_server_transport_witness:
  "map (\<lambda>client. call_transport (transport_callable client))
     (load_mcp_servers servers_world [''MCP_SERVERS'' \<mapsto> ''servers.json''])
   = [Inr (StdioClient (JStr ''uvx'') (JList [JStr ''server'']) JNull),
      Inr (SseClient (JStr ''https://example.com/sse'')),
      Inr (StreamableHttpClient (JStr ''https://example.com/mcp'') JNull)]"
proof -
  let ?env = "[''MCP_SERVERS'' \<mapsto> ''servers.json'']"
  let ?off = "[(''command'', JStr ''uvx''), (''disabled'', JBool True)]"
  let ?local = "[(''command'', JStr ''uvx''), (''args'', JList [JStr ''server''])]"
  let ?events = "[(''url'', JStr ''https://example.com/sse'')]"
  let ?http = "[(''url'', JStr ''https://example.com/mcp'')]"
  have var_set: "getenv ?env ''MCP_SERVERS'' = Some ''servers.json''" "''servers.json'' \<noteq> []"
    by (simp_all add: getenv_def)
  have libs: "mcp_imports servers_world = None"
    by (simp add: servers_world_def example_world_def)
  have parsed: "json_loads servers_world ''servers.json'' =
                  Inr (JDict [(''mcpServers'', JDict example_servers)])"
    by (simp add: servers_world_def)
  have servers: "map_of [(''mcpServers'', JDict example_servers)] ''mcpServers'' =
                   Some (JDict ([] @ (''off'', JDict ?off) #
                     [(''local'', JDict ?local), (''events'', JDict ?events),
                      (''http'', JDict ?http)]))"
      "map_of [(''mcpServers'', JDict example_servers)] ''mcpServers'' =
                   Some (JDict ([(''off'', JDict ?off)] @ (''local'', JDict ?local) #
                     [(''events'', JDict ?events), (''http'', JDict ?http)]))"
      "map_of [(''mcpServers'', JDict example_servers)] ''mcpServers'' =
                   Some (JDict ([(''off'', JDict ?off), (''local'', JDict ?local)]
                     @ (''events'', JDict ?events) # [(''http'', JDict ?http)]))"
      "map_of [(''mcpServers'', JDict example_servers)] ''mcpServers'' =
                   Some (JDict ([(''off'', JDict ?off), (''local'', JDict ?local),
                      (''events'', JDict ?events)] @ (''http'', JDict ?http) # []))"
    by (simp_all add: example_servers_def)
  note at_off = mcp_server_transport [OF var_set libs parsed servers(1)]
  note at_local = mcp_server_transport
      [OF var_set libs parsed servers(2), where command = "JStr ''uvx''"]
  note at_events = mcp_server_transport
      [OF var_set libs parsed servers(3), where url = "''https://example.com/sse''"]
  note at_http = mcp_server_transport
      [OF var_set libs parsed servers(4), where url = "''https://example.com/mcp''"]
  from at_off at_local at_events at_http show ?thesis
    by (auto simp add: dict_get_def mcp_server_def stdio_parameters_ok_def)
qed

text \<open>
  Claim C5 as stated fails: the test is on the whole URL string, not on its path. The URL
  \<^verbatim>\<open>https://sse.example.com/mcp\<close> has the path \<^verbatim>\<open>/mcp\<close>, which does not contain
  \<^verbatim>\<open>/sse\<close>, and yet its client is bound to the Server-Sent-Events transport, because
  the host follows a slash.
\<close>

theorem sse_outside_path_counterexample:
  "url_path ''https://sse.example.com/mcp'' = ''/mcp''
   \<and> \<not> str_contains ''/sse'' (url_path ''https://sse.example.com/mcp'')
   \<and> mcp_server ''docs'' (JDict [(''url'', JStr ''https://sse.example.com/mcp'')]) =
       Inr (Some \<lparr>transport_callable = TransportHttp (JStr ''https://sse.example.com/mcp'') JNull,
                  tool_prefix = JStr ''docs''\<rparr>)
   \<and> call_transport (TransportHttp (JStr ''https://sse.example.com/mcp'') JNull) =
       Inr (SseClient (JStr ''https://sse.example.com/mcp''))"
  by (simp add: url_path_def mcp_server_def dict_get_def)

section \<open>How the process ends\<close>

text \<open>
  Claim C6, as amended. A run ends on the abrupt path exactly when it constructed at least
  one MCP client and \<^verbatim>\<open>PYTEST_CURRENT_TEST\<close> is absent or empty; when the marker has a
  non-empty value, or no MCP client was constructed, it ends on the graceful path. This
  holds for the run that succeeds (exit status 0) and for the run that fails (exit status 1).
\<close>

theorem exit_path_rule:
  "abrupt (exit_by (run_agent w env prompt)) =
     (mcp_clients (run_agent w env prompt) \<noteq> []
      \<and> \<not> truthy (getenv env ''PYTEST_CURRENT_TEST''))
   \<and> has_mcp_servers (run_agent w env prompt) = (mcp_clients (run_agent w env prompt) \<noteq> [])
   \<and> exit_code (exit_by (run_agent w env prompt)) =
       (if failure (run_agent w env prompt) = None then 0 else 1)"
proof -
  have marker: "getenv (langfuse_env env) ''PYTEST_CURRENT_TEST'' = getenv env ''PYTEST_CURRENT_TEST''"
    by (simp add: getenv_def langfuse_env_other)
  show ?thesis
    by (simp add: run_agent_def otel_env_setup marker Let_def split: sum.splits option.splits)
qed

lemma example_run:
  "run_agent (example_world\<lparr>agent_call := (\<lambda>prompt. outcome)\<rparr>) (example_env marker) prompt =
   \<lparr>run_env = example_env marker,
    tools_config = ''strands_tools:shell'',
    mcp_clients = [\<lparr>transport_callable = TransportHttp (JStr ''https://sse.example.com/mcp'') JNull,
                    tool_prefix = JStr ''docs''\<rparr>],
    has_mcp_servers = True,
    run_tools = [Callable ''strands_tools.shell'',
                 McpServer \<lparr>transport_callable = TransportHttp (JStr ''https://sse.example.com/mcp'') JNull,
                            tool_prefix = JStr ''docs''\<rparr>],
    run_session_id = Some ''gh-unknown-local'',
    agent_constructed = True, failure = outcome,
    exit_by = (if truthy marker then SysExit (if outcome = None then 0 else 1)
               else OsExit (if outcome = None then 0 else 1))\<rparr>"
  by (cases outcome)
     (simp_all add: run_agent_def setup_otel_def langfuse_env_def getenv_def getenv_default_def
        Let_def load_all_tools_def load_tools_def split_once_def tool_names_of_def
        strip_def lstrip_def rstrip_def isspace_def resolve_tool_def example_world_def
        load_github_tools_def load_additional_tools_def load_one_def agent_phase_def
        str_lower_def lower_char_def load_mcp_servers_def example_mcp_json_def example_env_def
        example_mcp_doc_def dict_get_def mcp_server_def session_id_def str_replace_def
        truthy_def [of "None"] truthy_def [of "Some []"])

theorem exit_path_rule_witness:
  "abrupt (exit_by (run_agent (example_world\<lparr>agent_call := (\<lambda>prompt. Some OtherException)\<rparr>)
        (example_env None) ''hello''))
   \<and> exit_code (exit_by (run_agent (example_world\<lparr>agent_call := (\<lambda>prompt. Some OtherException)\<rparr>)
        (example_env None) ''hello'')) = 1
   \<and> \<not> abrupt (exit_by (run_agent (example_world\<lparr>agent_call := (\<lambda>prompt. None)\<rparr>)
        (example_env (Some ''tests/test_runner.py::test_mcp (call)'')) ''hello''))
   \<and> exit_code (exit_by (run_agent (example_world\<lparr>agent_call := (\<lambda>prompt. None)\<rparr>)
        (example_env (Some ''tests/test_runner.py::test_mcp (call)'')) ''hello'')) = 0"
proof -
  have absent: "getenv (example_env None) ''PYTEST_CURRENT_TEST'' = None"
    by (simp add: getenv_def example_env_def)
  have present: "getenv (example_env (Some ''tests/test_runner.py::test_mcp (call)''))
                   ''PYTEST_CURRENT_TEST'' = Some ''tests/test_runner.py::test_mcp (call)''"
    by (simp add: getenv_def example_env_def)
  have clients: "mcp_clients (run_agent (example_world\<lparr>agent_call := (\<lambda>prompt. outcome)\<rparr>)
                   (example_env marker) ''hello'') \<noteq> []" for outcome marker
    by (simp add: example_run)
  have failed: "failure (run_agent (example_world\<lparr>agent_call := (\<lambda>prompt. outcome)\<rparr>)
                  (example_env marker) ''hello'') = outcome" for outcome marker
    by (simp add: example_run)
  from exit_path_rule [of "example_world\<lparr>agent_call := (\<lambda>prompt. Some OtherException)\<rparr>"
      "example_env None" "''hello''"]
    exit_path_rule [of "example_world\<lparr>agent_call := (\<lambda>prompt. None)\<rparr>"
      "example_env (Some ''tests/test_runner.py::test_mcp (call)'')" "''hello''"]
  show ?thesis
    by (simp add: absent present clients failed truthy_def)
qed

text \<open>
  Claim C6 as stated fails: with the marker present but empty and one MCP client
  constructed, the run that succeeds ends on the abrupt path.
\<close>

theorem empty_marker_counterexample:
  "getenv (example_env (Some [])) ''PYTEST_CURRENT_TEST'' = Some []
   \<and> length (mcp_clients (run_agent (example_world\<lparr>agent_call := (\<lambda>prompt. None)\<rparr>)
        (example_env (Some [])) ''hello'')) = 1
   \<and> exit_by (run_agent (example_world\<lparr>agent_call := (\<lambda>prompt. None)\<rparr>)
        (example_env (Some [])) ''hello'') = OsExit 0"
proof -
  have "getenv (example_env (Some [])) ''PYTEST_CURRENT_TEST'' = Some []"
    by (simp add: getenv_def example_env_def)
  then show ?thesis
    by (simp add: example_run truthy_def)
qed

end
